theory Spec2Isabelle
  imports Main
begin

section \<open>Python values\<close>

text \<open>
  The decorators of \<^verbatim>\<open>decorators/except_handlers.py\<close> and the functions of
  \<^verbatim>\<open>toolbar/except_handlers/interfaces.py\<close> and \<^verbatim>\<open>accessories.py\<close> work on
  dynamically typed values: results of the wrapped function, exception instances,
  exception classes, the arguments of the call. They are modelled by one datatype.

  An exception class is given by its \<^verbatim>\<open>__name__\<close>, the names of its proper
  ancestors (its method resolution order without itself and \<^verbatim>\<open>object\<close>) and the
  numbers of positional arguments its constructor takes: at least \<open>ctor_min\<close> and, unless
  it takes \<^verbatim>\<open>*args\<close>, at most \<open>ctor_max\<close>. \<^verbatim>\<open>BaseException\<close> and the classes that
  inherit its constructor take any number; \<^verbatim>\<open>UnicodeDecodeError\<close> takes exactly five, a
  class with \<^verbatim>\<open>def __init__(self, msg, code)\<close> exactly two. An exception
  instance carries an identity (Python's \<^verbatim>\<open>id\<close>), its class and its \<^verbatim>\<open>args\<close>; the
  attribute \<^verbatim>\<open>__cause__\<close>, which \<^verbatim>\<open>raise ... from ...\<close> assigns, lives in the
  interpreter state below, under the identity. Strings are byte strings (UTF-8).
\<close>

datatype exc_class =
  ExcClass (cname: string) (ancestors: "string list") (ctor_min: nat) (ctor_max: "nat option")

datatype pytype =
    TObject | TNoneType | TBool | TInt | TStr | TTuple | TList | TDict | TType
  | TExc exc_class

datatype pyval =
    PNone
  | PBool bool
  | PInt int
  | PStr string
  | PTuple "pyval list"
  | PList "pyval list"
  | PDict "(pyval \<times> pyval) list"
  | PExc (exc_ident: nat) (exc_cls: exc_class) (exc_args: "pyval list")
  | PType pytype

definition BaseException_cls :: exc_class where
  "BaseException_cls = ExcClass ''BaseException'' [] 0 None"

definition Exception_cls :: exc_class where
  "Exception_cls = ExcClass ''Exception'' [''BaseException''] 0 None"

definition TypeError_cls :: exc_class where
  "TypeError_cls = ExcClass ''TypeError'' [''Exception'', ''BaseException''] 0 None"

definition AttributeError_cls :: exc_class where
  "AttributeError_cls = ExcClass ''AttributeError'' [''Exception'', ''BaseException''] 0 None"

text \<open>\<^verbatim>\<open>type(v)\<close>.\<close>

fun type_of :: "pyval \<Rightarrow> pytype" where
  "type_of PNone = TNoneType"
| "type_of (PBool _) = TBool"
| "type_of (PInt _) = TInt"
| "type_of (PStr _) = TStr"
| "type_of (PTuple _) = TTuple"
| "type_of (PList _) = TList"
| "type_of (PDict _) = TDict"
| "type_of (PExc _ c _) = TExc c"
| "type_of (PType _) = TType"

text \<open>\<^verbatim>\<open>issubclass(a, b)\<close>: every class derives from \<^verbatim>\<open>object\<close>, \<^verbatim>\<open>bool\<close> from
  \<^verbatim>\<open>int\<close>, and an exception class from the classes named among its ancestors.\<close>

fun issubclass :: "pytype \<Rightarrow> pytype \<Rightarrow> bool" where
  "issubclass a TObject = True"
| "issubclass TBool TInt = True"
| "issubclass (TExc c) (TExc d) = (cname c = cname d \<or> cname d \<in> set (ancestors c))"
| "issubclass a b = (a = b)"

text \<open>\<^verbatim>\<open>isinstance(v, ts)\<close> with a tuple of types \<^verbatim>\<open>ts\<close>.\<close>

definition isinstance :: "pyval \<Rightarrow> pytype list \<Rightarrow> bool" where
  "isinstance v ts = list_ex (issubclass (type_of v)) ts"

text \<open>The truth value of an object, as \<^verbatim>\<open>if obj:\<close> tests it.\<close>

fun truthy :: "pyval \<Rightarrow> bool" where
  "truthy PNone = False"
| "truthy (PBool b) = b"
| "truthy (PInt i) = (i \<noteq> 0)"
| "truthy (PStr s) = (s \<noteq> [])"
| "truthy (PTuple xs) = (xs \<noteq> [])"
| "truthy (PList xs) = (xs \<noteq> [])"
| "truthy (PDict kvs) = (kvs \<noteq> [])"
| "truthy (PExc _ _ _) = True"
| "truthy (PType _) = True"

section \<open>Rendering: \<^verbatim>\<open>repr\<close> and \<^verbatim>\<open>str\<close>\<close>

function nat_digits :: "nat \<Rightarrow> string" where
  "nat_digits n =
     (if n < 10 then [char_of (48 + n)]
      else nat_digits (n div 10) @ [char_of (48 + n mod 10)])"
  by pat_completeness auto
termination
  by (relation "measure id") auto

declare nat_digits.simps [simp del]

definition int_str :: "int \<Rightarrow> string" where
  "int_str i = (if i < 0 then ''-'' @ nat_digits (nat (- i)) else nat_digits (nat i))"

definition hex_digit :: "nat \<Rightarrow> char" where
  "hex_digit d = (if d < 10 then char_of (48 + d) else char_of (87 + d))"

text \<open>One character of a string inside \<^verbatim>\<open>repr\<close>, for the quote character \<open>q\<close> in use.
  Bytes from \<open>0x80\<close> on belong to UTF-8 sequences of printable characters and stay.\<close>

definition repr_char :: "char \<Rightarrow> char \<Rightarrow> string" where
  "repr_char q c =
     (let n = (of_char c :: nat) in
      if c = q \<or> c = CHR 0x5C then [CHR 0x5C, c]
      else if n = 9 then [CHR 0x5C, CHR ''t'']
      else if n = 10 then [CHR 0x5C, CHR ''n'']
      else if n = 13 then [CHR 0x5C, CHR ''r'']
      else if n < 32 \<or> n = 127 then [CHR 0x5C, CHR ''x'', hex_digit (n div 16), hex_digit (n mod 16)]
      else [c])"

text \<open>\<^verbatim>\<open>repr\<close> of a string: single quotes, unless the text holds a single quote and no
  double quote.\<close>

definition str_repr :: "string \<Rightarrow> string" where
  "str_repr s =
     (let q = (if CHR 0x27 \<in> set s \<and> CHR 0x22 \<notin> set s then CHR 0x22 else CHR 0x27)
      in [q] @ concat (map (repr_char q) s) @ [q])"

fun join :: "string \<Rightarrow> string list \<Rightarrow> string" where
  "join sep [] = []"
| "join sep [x] = x"
| "join sep (x # y # ys) = x @ sep @ join sep (y # ys)"

fun type_name :: "pytype \<Rightarrow> string" where
  "type_name TObject = ''object''"
| "type_name TNoneType = ''NoneType''"
| "type_name TBool = ''bool''"
| "type_name TInt = ''int''"
| "type_name TStr = ''str''"
| "type_name TTuple = ''tuple''"
| "type_name TList = ''list''"
| "type_name TDict = ''dict''"
| "type_name TType = ''type''"
| "type_name (TExc c) = cname c"

fun pyrepr :: "pyval \<Rightarrow> string" where
  "pyrepr PNone = ''None''"
| "pyrepr (PBool b) = (if b then ''True'' else ''False'')"
| "pyrepr (PInt i) = int_str i"
| "pyrepr (PStr s) = str_repr s"
| "pyrepr (PTuple xs) =
     (case xs of
        [x] \<Rightarrow> ''('' @ pyrepr x @ '',)''
      | _ \<Rightarrow> ''('' @ join '', '' (map pyrepr xs) @ '')'')"
| "pyrepr (PList xs) = ''['' @ join '', '' (map pyrepr xs) @ '']''"
| "pyrepr (PDict kvs) =
     ''{'' @ join '', '' (map (\<lambda>kv. pyrepr (fst kv) @ '': '' @ pyrepr (snd kv)) kvs) @ ''}''"
| "pyrepr (PExc _ c as) = cname c @ ''('' @ join '', '' (map pyrepr as) @ '')''"
| "pyrepr (PType t) = ''<class '' @ [CHR 0x27] @ type_name t @ [CHR 0x27] @ ''>''"

text \<open>\<^verbatim>\<open>str(v)\<close>, which is also what an f-string field \<^verbatim>\<open>{v}\<close> renders. An exception
  instance uses \<^verbatim>\<open>BaseException.__str__\<close>: empty without arguments, the \<^verbatim>\<open>str\<close> of
  a single argument, the tuple of several. Classes that define \<^verbatim>\<open>__str__\<close> of their own
  (\<^verbatim>\<open>KeyError\<close>, \<^verbatim>\<open>OSError\<close>) are not distinguished, nor is the module that \<^verbatim>\<open>repr\<close>
  writes before the name of a class that is not a builtin; the statements below refer to
  these texts through \<open>pystr\<close> and do not depend on them.\<close>

fun pystr :: "pyval \<Rightarrow> string" where
  "pystr (PStr s) = s"
| "pystr (PExc i c as) =
     (case as of
        [] \<Rightarrow> []
      | [a] \<Rightarrow> pystr a
      | _ \<Rightarrow> pyrepr (PTuple as))"
| "pystr v = pyrepr v"


section \<open>Interpreter state, results, \<^verbatim>\<open>raise\<close>\<close>

text \<open>
  The logging sink is the \<^verbatim>\<open>Logger\<close> object handed to the decorators; the model
  records every call of its method \<^verbatim>\<open>log(level, msg)\<close>, in order, and takes the call to
  return normally. The state also holds the counter of object identities and the
  \<^verbatim>\<open>__cause__\<close> attribute of the exception instances (absent means \<^verbatim>\<open>None\<close>).
\<close>

datatype logger = Logger (logger_name: string)

record pystate =
  next_id :: nat
  cause_of :: "nat \<Rightarrow> pyval option"
  log_calls :: "(logger \<times> int \<times> string) list"

datatype outcome = Return pyval | Raise pyval

text \<open>A wrapped function: its \<^verbatim>\<open>__name__\<close> and what a call with positional and keyword
  arguments does to the state.\<close>

record pyfunc =
  fname :: string
  body :: "pyval list \<Rightarrow> (string \<times> pyval) list \<Rightarrow> pystate \<Rightarrow> outcome \<times> pystate"

text \<open>A new instance of the class \<^verbatim>\<open>c\<close> with the given \<^verbatim>\<open>args\<close>: a new object, whose
  \<^verbatim>\<open>__cause__\<close> is \<^verbatim>\<open>None\<close>.\<close>

definition new_exc :: "exc_class \<Rightarrow> pyval list \<Rightarrow> pystate \<Rightarrow> pyval \<times> pystate" where
  "new_exc c as st =
     (PExc (next_id st) c as,
      st\<lparr>next_id := Suc (next_id st), cause_of := (cause_of st)(next_id st := None)\<rparr>)"

text \<open>Whether the constructor of the class takes \<open>n\<close> positional arguments.\<close>

definition ctor_accepts :: "exc_class \<Rightarrow> nat \<Rightarrow> bool" where
  "ctor_accepts c n =
     (ctor_min c \<le> n \<and> (case ctor_max c of None \<Rightarrow> True | Some m \<Rightarrow> n \<le> m))"

text \<open>\<^verbatim>\<open>obj(*args)\<close>. The constructor of an exception class returns a new instance when
  it takes that many arguments and raises a \<^verbatim>\<open>TypeError\<close> otherwise (its text depends on
  the signature of the class and is not followed here). Every call of this program is
  guarded by \<open>is_pure_exc_class\<close>, so that \<^verbatim>\<open>obj\<close> is an exception class; anything else
  is answered as a value that cannot be called.\<close>

definition call_obj :: "pyval \<Rightarrow> pyval list \<Rightarrow> pystate \<Rightarrow> outcome \<times> pystate" where
  "call_obj obj as st =
     (case obj of
        PType (TExc c) \<Rightarrow>
          if ctor_accepts c (length as)
          then (let (e, st') = new_exc c as st in (Return e, st'))
          else (let (e, st') =
                  new_exc TypeError_cls [PStr ''constructor does not take these arguments''] st
                in (Raise e, st'))
      | _ \<Rightarrow> (let (e, st') = new_exc TypeError_cls [PStr ''object is not callable''] st
              in (Raise e, st')))"


text \<open>The statement \<^verbatim>\<open>raise v\<close>: an instance is raised as it is, a class is called
  without arguments first (an error of its constructor is then the one raised), anything
  else is a \<^verbatim>\<open>TypeError\<close>.\<close>

definition resolve_raised :: "pyval \<Rightarrow> pystate \<Rightarrow> outcome \<times> pystate" where
  "resolve_raised v st =
     (case v of
        PExc i c as \<Rightarrow> (Return v, st)
      | PType (TExc c) \<Rightarrow> call_obj v [] st
      | _ \<Rightarrow> (let (e, st') =
                 new_exc TypeError_cls [PStr ''exceptions must derive from BaseException''] st
              in (Raise e, st')))"

definition py_raise :: "pyval \<Rightarrow> pystate \<Rightarrow> outcome \<times> pystate" where
  "py_raise v st =
     (case resolve_raised v st of
        (Return e, st') \<Rightarrow> (Raise e, st')
      | (Raise t, st') \<Rightarrow> (Raise t, st'))"

text \<open>The statement \<^verbatim>\<open>raise v from w\<close>: \<^verbatim>\<open>v\<close> is resolved as above; then \<^verbatim>\<open>w\<close>, a class
  being called without arguments; the result is stored as \<^verbatim>\<open>__cause__\<close> of the raised
  instance.\<close>

definition py_raise_from :: "pyval \<Rightarrow> pyval \<Rightarrow> pystate \<Rightarrow> outcome \<times> pystate" where
  "py_raise_from v w st =
     (case resolve_raised v st of
        (Raise t, st') \<Rightarrow> (Raise t, st')
      | (Return e, st') \<Rightarrow>
          (case w of
             PExc i c as \<Rightarrow> (Raise e, st'\<lparr>cause_of := (cause_of st')(exc_ident e := Some w)\<rparr>)
           | PType (TExc c) \<Rightarrow>
               (case call_obj w [] st' of
                  (Return k, st'') \<Rightarrow>
                    (Raise e, st''\<lparr>cause_of := (cause_of st'')(exc_ident e := Some k)\<rparr>)
                | (Raise t, st'') \<Rightarrow> (Raise t, st''))
           | PNone \<Rightarrow> (Raise e, st'\<lparr>cause_of := (cause_of st')(exc_ident e := None)\<rparr>)
           | _ \<Rightarrow>
               (let (t, st'') =
                  new_exc TypeError_cls
                    [PStr ''exception causes must derive from BaseException''] st'
                in (Raise t, st''))))"

section \<open>\<^verbatim>\<open>toolbar/except_handlers/accessories.py\<close>\<close>

definition is_exc_instance :: "pyval \<Rightarrow> bool" where
  "is_exc_instance obj = isinstance obj [TExc Exception_cls]"

definition isclass :: "pyval \<Rightarrow> bool" where
  "isclass obj = (case obj of PType t \<Rightarrow> True | _ \<Rightarrow> False)"

text \<open>\<^verbatim>\<open>issubclass(obj, Exception)\<close> for an object that is a class.\<close>

definition issubclass_Exception :: "pyval \<Rightarrow> bool" where
  "issubclass_Exception obj =
     (case obj of PType t \<Rightarrow> issubclass t (TExc Exception_cls) | _ \<Rightarrow> False)"

definition is_pure_exc_class :: "pyval \<Rightarrow> bool" where
  "is_pure_exc_class obj =
     (let is_instance = is_exc_instance obj;
          is_exc_class = (isclass obj \<and> issubclass_Exception obj)
      in \<not> is_instance \<and> is_exc_class)"

definition is_exception :: "pyval \<Rightarrow> bool" where
  "is_exception obj = (is_exc_instance obj \<or> is_pure_exc_class obj)"

text \<open>\<open>get_err_str\<close> returns a string for an instance and the object itself otherwise.\<close>

definition get_err_str :: "pyval \<Rightarrow> pyval" where
  "get_err_str err =
     (if is_exc_instance err
      then PStr (type_name (type_of err) @ '': '' @ pystr err)
      else err)"

definition simple_msg_err :: "pyval \<Rightarrow> string \<Rightarrow> string" where
  "simple_msg_err err func_name = ''<'' @ func_name @ ''> '' @ pystr (get_err_str err)"

definition annotated_msg_err :: "pyval \<Rightarrow> string \<Rightarrow> string \<Rightarrow> string" where
  "annotated_msg_err err func_name err_annotated =
     ''<'' @ func_name @ ''> '' @ err_annotated @ '': '' @ pystr (get_err_str err)"

definition get_simple_or_annotated :: "pyval \<Rightarrow> string \<Rightarrow> string option \<Rightarrow> string" where
  "get_simple_or_annotated err func_name err_annotated =
     (case err_annotated of
        None \<Rightarrow> simple_msg_err err func_name
      | Some a \<Rightarrow> annotated_msg_err err func_name a)"

section \<open>\<^verbatim>\<open>toolbar/except_handlers/interfaces.py\<close>\<close>

text \<open>The two message texts of the source, in UTF-8.\<close>

definition msg_no_logger :: string where
  "msg_no_logger = [
      CHR 0xD0, CHR 0x9E, CHR 0xD1, CHR 0x82, CHR 0xD1, CHR 0x81, CHR 0xD1, CHR 0x83,
      CHR 0xD1, CHR 0x82, CHR 0xD1, CHR 0x81, CHR 0xD1, CHR 0x82, CHR 0xD0, CHR 0xB2,
      CHR 0xD1, CHR 0x83, CHR 0xD0, CHR 0xB5, CHR 0xD1, CHR 0x82, CHR 0x20, CHR 0xD0,
      CHR 0xBE, CHR 0xD0, CHR 0xB1, CHR 0xD1, CHR 0x8A, CHR 0xD0, CHR 0xB5, CHR 0xD0,
      CHR 0xBA, CHR 0xD1, CHR 0x82, CHR 0x20, CHR 0xD0, CHR 0xBB, CHR 0xD0, CHR 0xBE,
      CHR 0xD0, CHR 0xB3, CHR 0xD0, CHR 0xB8, CHR 0xD1, CHR 0x80, CHR 0xD0, CHR 0xBE,
      CHR 0xD0, CHR 0xB2, CHR 0xD0, CHR 0xB0, CHR 0xD0, CHR 0xBD, CHR 0xD0, CHR 0xB8,
      CHR 0xD1, CHR 0x8F]"

definition msg_not_a_type :: "pyval \<Rightarrow> string" where
  "msg_not_a_type err =
     [
      CHR 0xD0, CHR 0x90, CHR 0xD1, CHR 0x80, CHR 0xD0, CHR 0xB3, CHR 0xD1, CHR 0x83,
      CHR 0xD0, CHR 0xBC, CHR 0xD0, CHR 0xB5, CHR 0xD0, CHR 0xBD, CHR 0xD1, CHR 0x82,
      CHR 0x20] @ pystr err @
     [
      CHR 0x20, CHR 0xD0, CHR 0xB4, CHR 0xD0, CHR 0xBE, CHR 0xD0, CHR 0xBB, CHR 0xD0,
      CHR 0xB6, CHR 0xD0, CHR 0xB5, CHR 0xD0, CHR 0xBD, CHR 0x20, CHR 0xD0, CHR 0xB1,
      CHR 0xD1, CHR 0x8B, CHR 0xD1, CHR 0x82, CHR 0xD1, CHR 0x8C, CHR 0x20, CHR 0xD1,
      CHR 0x82, CHR 0xD0, CHR 0xB8, CHR 0xD0, CHR 0xBF, CHR 0xD0, CHR 0xBE, CHR 0xD0,
      CHR 0xBC, CHR 0x20, CHR 0xD0, CHR 0xB8, CHR 0xD1, CHR 0x81, CHR 0xD0, CHR 0xBA,
      CHR 0xD0, CHR 0xBB, CHR 0xD1, CHR 0x8E, CHR 0xD1, CHR 0x87, CHR 0xD0, CHR 0xB5,
      CHR 0xD0, CHR 0xBD, CHR 0xD0, CHR 0xB8, CHR 0xD1, CHR 0x8F, CHR 0x2C, CHR 0x20,
      CHR 0xD0, CHR 0xB0, CHR 0x20, CHR 0xD0, CHR 0xBD, CHR 0xD0, CHR 0xB5, CHR 0x20,
      CHR 0xD1, CHR 0x8D, CHR 0xD0, CHR 0xBA, CHR 0xD0, CHR 0xB7, CHR 0xD0, CHR 0xB5,
      CHR 0xD0, CHR 0xBC, CHR 0xD0, CHR 0xBF, CHR 0xD0, CHR 0xBB, CHR 0xD1, CHR 0x8F,
      CHR 0xD1, CHR 0x80, CHR 0xD0, CHR 0xBE, CHR 0xD0, CHR 0xBC, CHR 0x20, CHR 0xD0,
      CHR 0xB8, CHR 0xD1, CHR 0x81, CHR 0xD0, CHR 0xBA, CHR 0xD0, CHR 0xBB, CHR 0xD1,
      CHR 0x8E, CHR 0xD1, CHR 0x87, CHR 0xD0, CHR 0xB5, CHR 0xD0, CHR 0xBD, CHR 0xD0,
      CHR 0xB8, CHR 0xD1, CHR 0x8F]"

definition raise_type :: "pyval \<Rightarrow> string option \<Rightarrow> pystate \<Rightarrow> outcome \<times> pystate" where
  "raise_type err msg st =
     (if \<not> is_pure_exc_class err
      then (let (t, st') = new_exc TypeError_cls [PStr (msg_not_a_type err)] st
            in py_raise t st')
      else (case (case msg of
                    None \<Rightarrow> call_obj err [] st
                  | Some m \<Rightarrow> if m \<noteq> [] then call_obj err [PStr m] st else call_obj err [] st) of
              (Return err_instance, st') \<Rightarrow> py_raise err_instance st'
            | (Raise t, st') \<Rightarrow> (Raise t, st')))"

text \<open>The argument \<^verbatim>\<open>source_func\<close>: a callable with its \<^verbatim>\<open>__name__\<close>, a string, or
  something that is neither; \<open>None\<close> when it is not given.\<close>

datatype source = SrcFunc string | SrcStr string | SrcOther

definition get_func_name :: "source option \<Rightarrow> string" where
  "get_func_name fn =
     (let fn' = (case fn of None \<Rightarrow> SrcFunc ''log_err'' | Some SrcOther \<Rightarrow> SrcFunc ''log_err''
                 | Some f \<Rightarrow> f)
      in case fn' of SrcFunc n \<Rightarrow> n | SrcStr s \<Rightarrow> s | SrcOther \<Rightarrow> ''log_err'')"

definition log_err ::
  "pyval \<Rightarrow> string option \<Rightarrow> logger option \<Rightarrow> int \<Rightarrow> source option \<Rightarrow> pystate
   \<Rightarrow> outcome \<times> pystate" where
  "log_err err_to_log err_annotated log_obj log_level source_func st =
     (case log_obj of
        None \<Rightarrow> raise_type (PType (TExc AttributeError_cls)) (Some msg_no_logger) st
      | Some lg \<Rightarrow>
          (let func_name = get_func_name source_func;
               err_msg = get_simple_or_annotated err_to_log func_name err_annotated
           in (Return PNone, st\<lparr>log_calls := log_calls st @ [(lg, log_level, err_msg)]\<rparr>)))"

text \<open>\<^verbatim>\<open>raise err_raise from err if from_err else err_raise\<close> is parsed by Python as
  \<^verbatim>\<open>raise err_raise from (err if from_err else err_raise)\<close>.\<close>

definition raise_except :: "pyval \<Rightarrow> pyval \<Rightarrow> bool \<Rightarrow> pystate \<Rightarrow> outcome \<times> pystate" where
  "raise_except err err_raise from_err st =
     (if truthy err_raise
      then py_raise_from err_raise (if from_err then err else err_raise) st
      else py_raise err st)"

definition intercept_err_and_log ::
  "pyval \<Rightarrow> string option \<Rightarrow> pyval \<Rightarrow> logger option \<Rightarrow> int \<Rightarrow> bool \<Rightarrow> source option
   \<Rightarrow> pystate \<Rightarrow> outcome \<times> pystate" where
  "intercept_err_and_log err err_annotated err_raise log_obj log_level from_err source_func st =
     (case log_err err err_annotated log_obj log_level source_func st of
        (Raise t, st') \<Rightarrow> (Raise t, st')
      | (Return _, st') \<Rightarrow> raise_except err err_raise from_err st')"

definition raise_err_and_log ::
  "pyval \<Rightarrow> string option \<Rightarrow> string option \<Rightarrow> logger option \<Rightarrow> int \<Rightarrow> source option
   \<Rightarrow> pystate \<Rightarrow> outcome \<times> pystate" where
  "raise_err_and_log err err_message err_annotated log_obj log_level source_func st =
     (case (if is_pure_exc_class err
            then (case err_message of
                    None \<Rightarrow> (Return err, st)
                  | Some m \<Rightarrow> if m \<noteq> [] then call_obj err [PStr m] st else (Return err, st))
            else (Return err, st)) of
        (Raise t, st') \<Rightarrow> (Raise t, st')
      | (Return exc_err, st') \<Rightarrow>
          (case log_err exc_err err_annotated log_obj log_level source_func st' of
             (Raise t, st'') \<Rightarrow> (Raise t, st'')
           | (Return _, st'') \<Rightarrow> raise_except exc_err PNone True st''))"

section \<open>\<^verbatim>\<open>decorators/except_handlers.py\<close>\<close>

text \<open>\<^verbatim>\<open>args\<close> is a tuple and \<^verbatim>\<open>kwargs\<close> a dictionary with string keys.\<close>

definition kwargs_val :: "(string \<times> pyval) list \<Rightarrow> pyval" where
  "kwargs_val kwargs = PDict (map (\<lambda>kv. (PStr (fst kv), snd kv)) kwargs)"

definition err_annotated_msg ::
  "string option \<Rightarrow> bool \<Rightarrow> pyval list \<Rightarrow> (string \<times> pyval) list \<Rightarrow> string option" where
  "err_annotated_msg err_a add_args args kwargs =
     (if add_args
      then (let args_kwargs_a =
                  ''args='' @ pystr (PTuple args) @ '', kwargs='' @ pystr (kwargs_val kwargs)
            in (case err_a of
                  None \<Rightarrow> Some args_kwargs_a
                | Some a \<Rightarrow> if a \<noteq> [] then Some (a @ '' '' @ args_kwargs_a)
                            else Some args_kwargs_a))
      else err_a)"

text \<open>The wrappers. A wrapper whose last statement returns normally ends without
  \<^verbatim>\<open>return\<close>, that is with \<^verbatim>\<open>None\<close>. \<^verbatim>\<open>except Exception\<close> catches the instances of
  \<^verbatim>\<open>Exception\<close> and lets every other raised object through.\<close>

definition err_interceptor ::
  "pyval \<Rightarrow> string option \<Rightarrow> bool \<Rightarrow> logger option \<Rightarrow> bool \<Rightarrow> int
   \<Rightarrow> pyfunc \<Rightarrow> pyval list \<Rightarrow> (string \<times> pyval) list \<Rightarrow> pystate \<Rightarrow> outcome \<times> pystate" where
  "err_interceptor err_raise err_annotated args_to_annotate log_obj from_err log_level
     func args kwargs st =
     (case body func args kwargs st of
        (Return r, st') \<Rightarrow> (Return r, st')
      | (Raise err, st') \<Rightarrow>
          if is_exc_instance err
          then (let err_a = err_annotated_msg err_annotated args_to_annotate args kwargs
                in case intercept_err_and_log err err_a err_raise log_obj log_level from_err
                          (Some (SrcFunc (fname func))) st' of
                     (Raise t, st'') \<Rightarrow> (Raise t, st'')
                   | (Return _, st'') \<Rightarrow> (Return PNone, st''))
          else (Raise err, st'))"

definition is_raise :: "pyval \<Rightarrow> pytype list \<Rightarrow> bool \<Rightarrow> bool" where
  "is_raise res r_type r_none = (isinstance res r_type \<or> (res = PNone \<and> r_none))"

definition get_err_msg :: "pyval \<Rightarrow> string option \<Rightarrow> string" where
  "get_err_msg res e_msg_annotate =
     (case e_msg_annotate of
        None \<Rightarrow> pystr res
      | Some a \<Rightarrow> a @ '', '' @ pystr res)"

definition raise_if_return ::
  "pyval \<Rightarrow> string option \<Rightarrow> logger option \<Rightarrow> int \<Rightarrow> pytype list \<Rightarrow> bool
   \<Rightarrow> pyfunc \<Rightarrow> pyval list \<Rightarrow> (string \<times> pyval) list \<Rightarrow> pystate \<Rightarrow> outcome \<times> pystate" where
  "raise_if_return exception err_msg_annotate log_obj log_level raise_by_type raise_by_none
     func args kwargs st =
     (case body func args kwargs st of
        (Raise e, st') \<Rightarrow> (Raise e, st')
      | (Return result, st') \<Rightarrow>
          if \<not> is_raise result raise_by_type raise_by_none
          then (Return result, st')
          else (case (if is_pure_exc_class exception
                      then (let err_msg = get_err_msg result err_msg_annotate
                            in call_obj exception [PStr err_msg] st')
                      else (Return exception, st')) of
                  (Raise t, st'') \<Rightarrow> (Raise t, st'')
                | (Return err, st'') \<Rightarrow>
                    (case intercept_err_and_log err None PNone log_obj log_level True
                            (Some (SrcFunc (fname func))) st'' of
                       (Raise t, st3) \<Rightarrow> (Raise t, st3)
                     | (Return _, st3) \<Rightarrow> (Return PNone, st3))))"

definition err_log_and_return ::
  "pyval \<Rightarrow> string option \<Rightarrow> bool \<Rightarrow> logger option \<Rightarrow> int
   \<Rightarrow> pyfunc \<Rightarrow> pyval list \<Rightarrow> (string \<times> pyval) list \<Rightarrow> pystate \<Rightarrow> outcome \<times> pystate" where
  "err_log_and_return err_output err_annotated args_to_annotate log_obj log_level
     func args kwargs st =
     (case body func args kwargs st of
        (Return r, st') \<Rightarrow> (Return r, st')
      | (Raise err, st') \<Rightarrow>
          if is_exc_instance err
          then (case log_err err (err_annotated_msg err_annotated args_to_annotate args kwargs)
                       log_obj log_level (Some (SrcFunc (fname func))) st' of
                  (Raise t, st'') \<Rightarrow> (Raise t, st'')
                | (Return _, st'') \<Rightarrow> (Return err_output, st''))
          else (Raise err, st'))"

section \<open>Example programs\<close>

text \<open>The scenarios of the specification, used to run the theorems on concrete calls.\<close>

definition st0 :: pystate where
  "st0 = \<lparr>next_id = 0, cause_of = (\<lambda>_. None), log_calls = []\<rparr>"

definition ZeroDivisionError_cls :: exc_class where
  "ZeroDivisionError_cls =
     ExcClass ''ZeroDivisionError'' [''ArithmeticError'', ''Exception'', ''BaseException'']
       0 None"

definition ComputeError_cls :: exc_class where
  "ComputeError_cls = ExcClass ''ComputeError'' [''Exception'', ''BaseException''] 0 None"

definition ValueError_cls :: exc_class where
  "ValueError_cls = ExcClass ''ValueError'' [''Exception'', ''BaseException''] 0 None"

definition SystemExit_cls :: exc_class where
  "SystemExit_cls = ExcClass ''SystemExit'' [''BaseException''] 0 None"

text \<open>A class deriving from \<^verbatim>\<open>Exception\<close> whose constructor does not take one message.\<close>

definition UnicodeDecodeError_cls :: exc_class where
  "UnicodeDecodeError_cls =
     ExcClass ''UnicodeDecodeError''
       [''UnicodeError'', ''ValueError'', ''Exception'', ''BaseException''] 5 (Some 5)"

definition divide_fn :: pyfunc where
  "divide_fn = \<lparr>fname = ''divide'', body = (\<lambda>args kwargs st.
      let (e, st') = new_exc ZeroDivisionError_cls [PStr ''division by zero''] st
      in (Raise e, st'))\<rparr>"

definition parseFlag :: pyfunc where
  "parseFlag = \<lparr>fname = ''parseFlag'',
      body = (\<lambda>args kwargs st. (Return (PStr ''bad input''), st))\<rparr>"

definition answer :: pyfunc where
  "answer = \<lparr>fname = ''answer'', body = (\<lambda>args kwargs st. (Return (PInt 42), st))\<rparr>"

definition quit :: pyfunc where
  "quit = \<lparr>fname = ''quit'', body = (\<lambda>args kwargs st.
      let (e, st') = new_exc SystemExit_cls [PInt 1] st in (Raise e, st'))\<rparr>"


section \<open>Auxiliary facts\<close>

lemma is_exc_instance_PExc:
  "is_exc_instance v \<Longrightarrow> \<exists>i c as. v = PExc i c as"
  by (cases v) (auto simp: is_exc_instance_def isinstance_def)


lemma py_raise_instance: "py_raise (PExc i c as) st = (Raise (PExc i c as), st)"
  by (simp add: py_raise_def resolve_raised_def)


lemma raise_except_plain:
  "is_exc_instance e \<Longrightarrow> raise_except e PNone fe st = (Raise e, st)"
  by (auto simp: raise_except_def py_raise_instance dest!: is_exc_instance_PExc)

lemma log_err_some:
  "log_err e a (Some lg) lvl src st =
     (Return PNone, st\<lparr>log_calls := log_calls st @
        [(lg, lvl, get_simple_or_annotated e (get_func_name src) a)]\<rparr>)"
  by (simp add: log_err_def)

lemma pure_AttributeError: "is_pure_exc_class (PType (TExc AttributeError_cls))"
  by (simp add: is_pure_exc_class_def is_exc_instance_def isinstance_def isclass_def
      issubclass_Exception_def AttributeError_cls_def Exception_cls_def)

lemma msg_no_logger_nonempty: "msg_no_logger \<noteq> []"
  by (simp add: msg_no_logger_def)

lemma AttributeError_accepts: "ctor_accepts AttributeError_cls n"
  by (simp add: ctor_accepts_def AttributeError_cls_def)

lemma ComputeError_accepts: "ctor_accepts ComputeError_cls n"
  by (simp add: ctor_accepts_def ComputeError_cls_def)

lemma ValueError_accepts: "ctor_accepts ValueError_cls n"
  by (simp add: ctor_accepts_def ValueError_cls_def)

lemma call_obj_accepted:
  "ctor_accepts c (length as) \<Longrightarrow>
   call_obj (PType (TExc c)) as st =
     (Return (PExc (next_id st) c as),
      st\<lparr>next_id := Suc (next_id st), cause_of := (cause_of st)(next_id st := None)\<rparr>)"
  by (simp add: call_obj_def new_exc_def)

lemma call_obj_refused:
  "\<not> ctor_accepts c (length as) \<Longrightarrow>
   call_obj (PType (TExc c)) as st =
     (Raise (PExc (next_id st) TypeError_cls
               [PStr ''constructor does not take these arguments'']),
      st\<lparr>next_id := Suc (next_id st), cause_of := (cause_of st)(next_id st := None)\<rparr>)"
  by (simp add: call_obj_def new_exc_def)

lemma log_err_none:
  "log_err e a None lvl src st =
     (Raise (PExc (next_id st) AttributeError_cls [PStr msg_no_logger]),
      st\<lparr>next_id := Suc (next_id st), cause_of := (cause_of st)(next_id st := None)\<rparr>)"
  by (simp add: log_err_def raise_type_def pure_AttributeError msg_no_logger_nonempty
      call_obj_accepted AttributeError_accepts py_raise_instance)

lemma get_func_name_func: "get_func_name (Some (SrcFunc n)) = n"
  by (simp add: get_func_name_def)

lemma body_divide:
  "body divide_fn args kwargs st =
     (Raise (PExc (next_id st) ZeroDivisionError_cls [PStr ''division by zero'']),
      st\<lparr>next_id := Suc (next_id st), cause_of := (cause_of st)(next_id st := None)\<rparr>)"
  by (simp add: divide_fn_def new_exc_def)

lemma body_quit:
  "body quit args kwargs st =
     (Raise (PExc (next_id st) SystemExit_cls [PInt 1]),
      st\<lparr>next_id := Suc (next_id st), cause_of := (cause_of st)(next_id st := None)\<rparr>)"
  by (simp add: quit_def new_exc_def)

lemma ZeroDivisionError_instance: "is_exc_instance (PExc i ZeroDivisionError_cls as)"
  by (simp add: is_exc_instance_def isinstance_def ZeroDivisionError_cls_def Exception_cls_def)

lemma SystemExit_not_instance: "\<not> is_exc_instance (PExc i SystemExit_cls as)"
  by (simp add: is_exc_instance_def isinstance_def SystemExit_cls_def Exception_cls_def)

lemma ComputeError_instance: "is_exc_instance (PExc i ComputeError_cls as)"
  by (simp add: is_exc_instance_def isinstance_def ComputeError_cls_def Exception_cls_def)

lemma ValueError_instance: "is_exc_instance (PExc i ValueError_cls as)"
  by (simp add: is_exc_instance_def isinstance_def ValueError_cls_def Exception_cls_def)

lemma ValueError_pure: "is_pure_exc_class (PType (TExc ValueError_cls))"
  by (simp add: is_pure_exc_class_def is_exc_instance_def isinstance_def isclass_def
      issubclass_Exception_def ValueError_cls_def Exception_cls_def)

lemma ComputeError_pure: "is_pure_exc_class (PType (TExc ComputeError_cls))"
  by (simp add: is_pure_exc_class_def is_exc_instance_def isinstance_def isclass_def
      issubclass_Exception_def ComputeError_cls_def Exception_cls_def)

lemma cname_ValueError: "cname ValueError_cls = ''ValueError''"
  by (simp add: ValueError_cls_def)

lemma annotation_ctx_args:
  "err_annotated_msg (Some ''ctx'') True [PInt 1] [] = Some ''ctx args=(1,), kwargs={}''"
  by code_simp



text \<open>A class whose constructor refuses the message: \<^verbatim>\<open>err(err_msg)\<close> raises the
  \<^verbatim>\<open>TypeError\<close> of the constructor, before the logging call.\<close>

lemma refused_constructor_raises_before_log:
  assumes "body func args kwargs st = (Return r, st')"
    and "is_raise r rbt rbn"
    and "is_pure_exc_class (PType (TExc c))"
    and "\<not> ctor_accepts c 1"
  shows "raise_if_return (PType (TExc c)) ann log_obj lvl rbt rbn func args kwargs st =
     (Raise (PExc (next_id st') TypeError_cls
               [PStr ''constructor does not take these arguments'']),
      st'\<lparr>next_id := Suc (next_id st'), cause_of := (cause_of st')(next_id st' := None)\<rparr>)"
  using assms by (simp add: raise_if_return_def call_obj_refused)



lemma UnicodeDecodeError_pure: "is_pure_exc_class (PType (TExc UnicodeDecodeError_cls))"
  by (simp add: is_pure_exc_class_def is_exc_instance_def isinstance_def isclass_def
      issubclass_Exception_def UnicodeDecodeError_cls_def Exception_cls_def)

lemma UnicodeDecodeError_refuses: "\<not> ctor_accepts UnicodeDecodeError_cls 1"
  by (simp add: ctor_accepts_def UnicodeDecodeError_cls_def)

lemma UnicodeDecodeError_logs_nothing:
  "raise_if_return (PType (TExc UnicodeDecodeError_cls)) None (Some (Logger ''app'')) 40
       [TStr] False parseFlag [PStr ''x''] [] st0
   = (Raise (PExc 0 TypeError_cls [PStr ''constructor does not take these arguments'']),
      st0\<lparr>next_id := Suc 0, cause_of := (cause_of st0)(0 := None)\<rparr>)"
proof -
  have b: "body parseFlag [PStr ''x''] [] st0 = (Return (PStr ''bad input''), st0)"
    by (simp add: parseFlag_def)
  have t: "is_raise (PStr ''bad input'') [TStr] False"
    by (simp add: is_raise_def isinstance_def)
  from refused_constructor_raises_before_log
    [OF b t UnicodeDecodeError_pure UnicodeDecodeError_refuses]
  show ?thesis by (simp add: st0_def)
qed

lemma is_raise_default: "is_raise r [TStr] rbn = (type_of r = TStr \<or> (r = PNone \<and> rbn))"
  by (cases r) (auto simp: is_raise_def isinstance_def)

lemma body_parseFlag: "body parseFlag args kwargs st = (Return (PStr ''bad input''), st)"
  by (simp add: parseFlag_def)

lemma body_answer: "body answer args kwargs st = (Return (PInt 42), st)"
  by (simp add: answer_def)


section \<open>The claims\<close>

subsection \<open>Substitution and the declared cause\<close>

text \<open>
  Claim C1 says that, when \<^verbatim>\<open>err_interceptor\<close> substitutes \<^verbatim>\<open>err_raise\<close> for the
  captured error, \<^verbatim>\<open>__cause__\<close> of the raised error is the captured error exactly when
  \<^verbatim>\<open>from_err\<close> is true, and that no cause is recorded when it is false. The code runs
  \<^verbatim>\<open>raise err_raise from (err if from_err else err_raise)\<close>: with \<^verbatim>\<open>from_err=False\<close> a
  substituted instance becomes its own cause, and a substituted class is called twice, the
  second instance being the cause of the first. With \<^verbatim>\<open>from_err=True\<close> the cause is the
  captured error. The three calls below wrap \<^verbatim>\<open>divide(1, 0)\<close>.
\<close>

theorem from_err_false_still_sets_cause:
  "(case err_interceptor (PExc 0 ComputeError_cls [PStr ''bad'']) None False
           (Some (Logger ''app'')) False 40 divide_fn [PInt 1, PInt 0] [] (st0\<lparr>next_id := 1\<rparr>) of
      (r, st) \<Rightarrow>
        r = Raise (PExc 0 ComputeError_cls [PStr ''bad'']) \<and>
        cause_of st 0 = Some (PExc 0 ComputeError_cls [PStr ''bad'']))
   \<and> (case err_interceptor (PType (TExc ComputeError_cls)) None False
           (Some (Logger ''app'')) False 40 divide_fn [PInt 1, PInt 0] [] st0 of
      (r, st) \<Rightarrow>
        r = Raise (PExc 1 ComputeError_cls []) \<and>
        cause_of st 1 = Some (PExc 2 ComputeError_cls []))
   \<and> (case err_interceptor (PType (TExc ComputeError_cls)) None False
           (Some (Logger ''app'')) True 40 divide_fn [PInt 1, PInt 0] [] st0 of
      (r, st) \<Rightarrow>
        r = Raise (PExc 1 ComputeError_cls []) \<and>
        cause_of st 1 = Some (PExc 0 ZeroDivisionError_cls [PStr ''division by zero'']))"
  by (simp add: err_interceptor_def body_divide ZeroDivisionError_instance
      intercept_err_and_log_def log_err_some raise_except_def py_raise_from_def
      resolve_raised_def call_obj_accepted ComputeError_accepts st0_def err_annotated_msg_def)

subsection \<open>The annotation of \<^verbatim>\<open>raise_if_return\<close> with an exception instance\<close>

text \<open>
  Claim C2 says that, when \<^verbatim>\<open>raise_if_return\<close> is configured with an exception instance
  and \<^verbatim>\<open>err_msg_annotate\<close>, the annotation is in the log record and the instance keeps its
  message. The wrapper calls \<^verbatim>\<open>intercept_err_and_log\<close> without \<^verbatim>\<open>err_annotated\<close>, so the
  record is the simple message: the call below, with the annotation \<^verbatim>\<open>ctx\<close>, logs
  \<^verbatim>\<open><parseFlag> ValueError: boom\<close> and raises the instance as it was given.
\<close>

theorem raise_if_return_instance_annotation_not_logged:
  "raise_if_return (PExc 0 ValueError_cls [PStr ''boom'']) (Some ''ctx'')
       (Some (Logger ''app'')) 40 [TStr] False parseFlag [PStr ''x''] [] (st0\<lparr>next_id := 1\<rparr>)
   = (Raise (PExc 0 ValueError_cls [PStr ''boom'']),
      st0\<lparr>next_id := 1,
          log_calls := [(Logger ''app'', 40, ''<parseFlag> ValueError: boom'')]\<rparr>)"
  by (simp add: raise_if_return_def parseFlag_def is_raise_def isinstance_def
      is_pure_exc_class_def isclass_def intercept_err_and_log_def log_err_some
      get_func_name_func get_simple_or_annotated_def simple_msg_err_def get_err_str_def
      ValueError_instance raise_except_def py_raise_instance st0_def cname_ValueError)

subsection \<open>A missing logger\<close>

text \<open>
  Claim C3: without \<^verbatim>\<open>log_obj\<close>, \<^verbatim>\<open>log_err\<close> and \<^verbatim>\<open>intercept_err_and_log\<close> raise a new
  \<^verbatim>\<open>AttributeError\<close> with the text of the source before anything is logged, re-raised or
  returned. The same error leaves \<^verbatim>\<open>err_interceptor\<close> and \<^verbatim>\<open>err_log_and_return\<close> when
  the wrapped function has raised an \<^verbatim>\<open>Exception\<close>: no fallback value is returned, no log
  call is made, and the error raised is a new object, not the captured one.
\<close>

theorem missing_log_obj_is_fatal:
  assumes "body func args kwargs st = (Raise e, st')" and "is_exc_instance e"
  shows "let missing = PExc (next_id st') AttributeError_cls [PStr msg_no_logger];
             st'' = st'\<lparr>next_id := Suc (next_id st'),
                        cause_of := (cause_of st')(next_id st' := None)\<rparr>
         in log_err e a None lvl src st' = (Raise missing, st'')
          \<and> intercept_err_and_log e a er None lvl fe src st' = (Raise missing, st'')
          \<and> err_interceptor er a ata None fe lvl func args kwargs st = (Raise missing, st'')
          \<and> err_log_and_return out a ata None lvl func args kwargs st = (Raise missing, st'')
          \<and> log_calls st'' = log_calls st'
          \<and> (exc_ident e < next_id st' \<longrightarrow> missing \<noteq> e)"
  using assms
  by (auto simp: Let_def log_err_none intercept_err_and_log_def err_interceptor_def
      err_log_and_return_def)

theorem missing_log_obj_is_fatal_witness:
  "body divide_fn [PInt 1, PInt 0] [] st0 =
      (Raise (PExc 0 ZeroDivisionError_cls [PStr ''division by zero'']),
       st0\<lparr>next_id := Suc 0, cause_of := (cause_of st0)(0 := None)\<rparr>)
   \<and> is_exc_instance (PExc 0 ZeroDivisionError_cls [PStr ''division by zero''])
   \<and> fst (log_err (PExc 0 ZeroDivisionError_cls [PStr ''division by zero'']) None None 40 None
            (st0\<lparr>next_id := Suc 0, cause_of := (cause_of st0)(0 := None)\<rparr>))
       = Raise (PExc 1 AttributeError_cls [PStr msg_no_logger])
   \<and> fst (err_log_and_return (PDict []) None False None 40 divide_fn [PInt 1, PInt 0] [] st0)
       = Raise (PExc 1 AttributeError_cls [PStr msg_no_logger])
   \<and> fst (err_interceptor PNone None False None True 40 divide_fn [PInt 1, PInt 0] [] st0)
       = Raise (PExc 1 AttributeError_cls [PStr msg_no_logger])
   \<and> log_calls (snd (err_log_and_return (PDict []) None False None 40 divide_fn
                       [PInt 1, PInt 0] [] st0)) = []
   \<and> PExc 1 AttributeError_cls [PStr msg_no_logger]
       \<noteq> PExc 0 ZeroDivisionError_cls [PStr ''division by zero'']"
proof -
  have b: "body divide_fn [PInt 1, PInt 0] [] st0 =
      (Raise (PExc 0 ZeroDivisionError_cls [PStr ''division by zero'']),
       st0\<lparr>next_id := Suc 0, cause_of := (cause_of st0)(0 := None)\<rparr>)"
    using body_divide [of "[PInt 1, PInt 0]" "[]" st0] by (simp add: st0_def)
  have i: "is_exc_instance (PExc 0 ZeroDivisionError_cls [PStr ''division by zero''])"
    by (rule ZeroDivisionError_instance)
  show ?thesis
    using missing_log_obj_is_fatal [OF b i] b i by (simp add: Let_def st0_def)
qed

subsection \<open>The composed message\<close>

text \<open>
  Claim C4 says that the message for the label \<^verbatim>\<open>f\<close>, the annotation \<^verbatim>\<open>ctx\<close>, the
  arguments \<^verbatim>\<open>(1,)\<close> and no keyword arguments is \<^verbatim>\<open>f ctx args=(1,), kwargs={}: \<close> followed
  by the text of the error. As stated it fails: \<open>annotated_msg_err\<close> writes the label
  between angle brackets. For \<^verbatim>\<open>ValueError('boom')\<close> the message differs from the claimed
  one, whether the text of the error is read as \<^verbatim>\<open>ValueError: boom\<close> or as \<^verbatim>\<open>boom\<close>.
\<close>

theorem compose_label_counterexample:
  "get_simple_or_annotated (PExc 0 ValueError_cls [PStr ''boom'']) ''f''
       (err_annotated_msg (Some ''ctx'') True [PInt 1] [])
     \<noteq> ''f ctx args=(1,), kwargs={}: ''
         @ pystr (get_err_str (PExc 0 ValueError_cls [PStr ''boom'']))
   \<and> get_simple_or_annotated (PExc 0 ValueError_cls [PStr ''boom'']) ''f''
       (err_annotated_msg (Some ''ctx'') True [PInt 1] [])
     \<noteq> ''f ctx args=(1,), kwargs={}: '' @ pystr (PExc 0 ValueError_cls [PStr ''boom''])"
  by (simp add: get_simple_or_annotated_def annotation_ctx_args annotated_msg_err_def)

text \<open>
  Claim C4, amended: the message is \<^verbatim>\<open><f> ctx args=(1,), kwargs={}: \<close> followed by the
  text of the error, the label standing between angle brackets; the argument fragment
  follows the annotation after one space and \<^verbatim>\<open>: \<close> separates the annotation from the
  text of the error, which for an instance of \<^verbatim>\<open>Exception\<close> is the name of its class,
  \<^verbatim>\<open>: \<close> and its \<^verbatim>\<open>str\<close>.
\<close>

theorem compose_ctx_args_message:
  "get_simple_or_annotated err ''f'' (err_annotated_msg (Some ''ctx'') True [PInt 1] [])
     = ''<f> ctx args=(1,), kwargs={}: '' @ pystr (get_err_str err)
   \<and> get_err_str (PExc i c as)
     = (if is_exc_instance (PExc i c as) then PStr (cname c @ '': '' @ pystr (PExc i c as))
        else PExc i c as)"
  by (simp add: get_simple_or_annotated_def annotation_ctx_args annotated_msg_err_def
      get_err_str_def)

theorem compose_ctx_args_message_witness:
  "get_simple_or_annotated (PExc 0 ValueError_cls [PStr ''boom'']) ''f''
       (err_annotated_msg (Some ''ctx'') True [PInt 1] [])
     = ''<f> ctx args=(1,), kwargs={}: ValueError: boom''"
  using compose_ctx_args_message [of "PExc 0 ValueError_cls [PStr ''boom'']" 0 ValueError_cls
      "[PStr ''boom'']"]
  by (simp add: ValueError_instance cname_ValueError)

subsection \<open>Re-raising the captured error\<close>

text \<open>
  Claim C5: under \<^verbatim>\<open>err_interceptor\<close> without \<^verbatim>\<open>err_raise\<close> and with a logger, whatever
  the wrapped function raises leaves the wrapper as the same object. An instance of
  \<^verbatim>\<open>Exception\<close> is logged once on the way; the state is otherwise as the wrapped function
  left it, so no cause is assigned and no object is created.
\<close>

theorem err_interceptor_reraises_same_error:
  assumes "body func args kwargs st = (Raise e, st')"
  shows "err_interceptor PNone a ata (Some lg) fe lvl func args kwargs st =
     (Raise e,
      if is_exc_instance e
      then st'\<lparr>log_calls := log_calls st' @
             [(lg, lvl, get_simple_or_annotated e (fname func)
                          (err_annotated_msg a ata args kwargs))]\<rparr>
      else st')"
  using assms
  by (simp add: err_interceptor_def intercept_err_and_log_def log_err_some raise_except_plain
      get_func_name_func)

theorem err_interceptor_reraises_same_error_witness:
  "body divide_fn [PInt 1, PInt 0] [] st0 =
      (Raise (PExc 0 ZeroDivisionError_cls [PStr ''division by zero'']),
       st0\<lparr>next_id := Suc 0, cause_of := (cause_of st0)(0 := None)\<rparr>)
   \<and> fst (err_interceptor PNone None False (Some (Logger ''app'')) True 40 divide_fn
            [PInt 1, PInt 0] [] st0)
       = Raise (PExc 0 ZeroDivisionError_cls [PStr ''division by zero''])"
proof -
  have b: "body divide_fn [PInt 1, PInt 0] [] st0 =
      (Raise (PExc 0 ZeroDivisionError_cls [PStr ''division by zero'']),
       st0\<lparr>next_id := Suc 0, cause_of := (cause_of st0)(0 := None)\<rparr>)"
    using body_divide [of "[PInt 1, PInt 0]" "[]" st0] by (simp add: st0_def)
  show ?thesis
    using err_interceptor_reraises_same_error [OF b] b by simp
qed

subsection \<open>\<^verbatim>\<open>raise_if_return\<close> with the default policy\<close>



subsection \<open>\<^verbatim>\<open>raise_if_return\<close> with an exception class\<close>

text \<open>
  Claim C7: when the result triggers and \<^verbatim>\<open>exception\<close> is a class deriving from
  \<^verbatim>\<open>Exception\<close> whose constructor takes the one message, the wrapper (given a logger)
  raises a new instance of that class whose only argument is \<^verbatim>\<open>str(result)\<close> without an
  annotation and the annotation, \<^verbatim>\<open>, \<close> and \<^verbatim>\<open>str(result)\<close> with one. The instance is
  logged once, by the simple message.
\<close>

theorem raise_if_return_instantiates_class:
  assumes "body func args kwargs st = (Return r, st')"
    and "is_raise r rbt rbn"
    and "is_pure_exc_class (PType (TExc c))"
    and "ctor_accepts c 1"
  shows "let fresh = PExc (next_id st') c
                       [PStr (case ann of None \<Rightarrow> pystr r | Some a \<Rightarrow> a @ '', '' @ pystr r)]
         in raise_if_return (PType (TExc c)) ann (Some lg) lvl rbt rbn func args kwargs st =
            (Raise fresh,
             st'\<lparr>next_id := Suc (next_id st'),
                 cause_of := (cause_of st')(next_id st' := None),
                 log_calls := log_calls st' @ [(lg, lvl, simple_msg_err fresh (fname func))]\<rparr>)"
  using assms
  by (simp add: Let_def raise_if_return_def call_obj_accepted get_err_msg_def
      intercept_err_and_log_def log_err_some get_func_name_func get_simple_or_annotated_def
      raise_except_def py_raise_instance)

theorem raise_if_return_instantiates_class_witness:
  "body parseFlag [PStr ''x''] [] st0 = (Return (PStr ''bad input''), st0)
   \<and> is_raise (PStr ''bad input'') [TStr] False
   \<and> is_pure_exc_class (PType (TExc ValueError_cls))
   \<and> ctor_accepts ValueError_cls 1
   \<and> fst (raise_if_return (PType (TExc ValueError_cls)) None (Some (Logger ''app'')) 40
             [TStr] False parseFlag [PStr ''x''] [] st0)
       = Raise (PExc 0 ValueError_cls [PStr ''bad input''])
   \<and> fst (raise_if_return (PType (TExc ValueError_cls)) (Some ''flag'') (Some (Logger ''app'')) 40
             [TStr] False parseFlag [PStr ''x''] [] st0)
       = Raise (PExc 0 ValueError_cls [PStr ''flag, bad input''])"
proof -
  have b: "body parseFlag [PStr ''x''] [] st0 = (Return (PStr ''bad input''), st0)"
    by (rule body_parseFlag)
  have t: "is_raise (PStr ''bad input'') [TStr] False"
    by (simp add: is_raise_default)
  show ?thesis
    using raise_if_return_instantiates_class
        [OF b t ValueError_pure ValueError_accepts, where ann = None]
      raise_if_return_instantiates_class
        [OF b t ValueError_pure ValueError_accepts, where ann = "Some ''flag''"]
      b t ValueError_pure ValueError_accepts [of 1]
    by (simp add: Let_def st0_def)
qed

subsection \<open>Normal return\<close>

text \<open>
  Claim C8: when the wrapped function returns normally, \<^verbatim>\<open>err_interceptor\<close> and
  \<^verbatim>\<open>err_log_and_return\<close> return its value, and so does \<^verbatim>\<open>raise_if_return\<close> when the
  value does not trigger; the state is the one the wrapped function left, so the wrapper
  has made no log call.
\<close>

theorem wrappers_pass_normal_return:
  assumes "body func args kwargs st = (Return r, st')"
  shows "err_interceptor er a ata log_obj fe lvl func args kwargs st = (Return r, st')
       \<and> err_log_and_return out a ata log_obj lvl func args kwargs st = (Return r, st')
       \<and> (\<not> is_raise r rbt rbn \<longrightarrow>
            raise_if_return exc ann log_obj lvl rbt rbn func args kwargs st = (Return r, st'))"
  using assms
  by (simp add: err_interceptor_def err_log_and_return_def raise_if_return_def)

theorem wrappers_pass_normal_return_witness:
  "body answer [] [] st0 = (Return (PInt 42), st0)
   \<and> \<not> is_raise (PInt 42) [TStr] False
   \<and> err_interceptor PNone None False (Some (Logger ''app'')) True 40 answer [] [] st0
       = (Return (PInt 42), st0)
   \<and> err_log_and_return PNone None False (Some (Logger ''app'')) 40 answer [] [] st0
       = (Return (PInt 42), st0)
   \<and> raise_if_return (PType (TExc ValueError_cls)) None (Some (Logger ''app'')) 40 [TStr] False
        answer [] [] st0 = (Return (PInt 42), st0)"
proof -
  have b: "body answer [] [] st0 = (Return (PInt 42), st0)"
    by (rule body_answer)
  have t: "\<not> is_raise (PInt 42) [TStr] False"
    by (simp add: is_raise_default)
  show ?thesis
    using wrappers_pass_normal_return [OF b] b t by simp
qed

subsection \<open>The fallback value\<close>

text \<open>
  Claim C9: under \<^verbatim>\<open>err_log_and_return\<close> with a logger, when the wrapped function raises
  an error (an instance of \<^verbatim>\<open>Exception\<close>, which is what the wrapper intercepts), the
  wrapper makes one log call and returns \<^verbatim>\<open>err_output\<close>; nothing is raised, and the state
  changes by the log call only, so no error is substituted and no cause assigned.
\<close>

theorem err_log_and_return_returns_fallback:
  assumes "body func args kwargs st = (Raise e, st')" and "is_exc_instance e"
  shows "err_log_and_return out a ata (Some lg) lvl func args kwargs st =
     (Return out,
      st'\<lparr>log_calls := log_calls st' @
             [(lg, lvl, get_simple_or_annotated e (fname func)
                          (err_annotated_msg a ata args kwargs))]\<rparr>)"
  using assms
  by (simp add: err_log_and_return_def log_err_some get_func_name_func)

theorem err_log_and_return_returns_fallback_witness:
  "body divide_fn [PInt 1, PInt 0] [] st0 =
      (Raise (PExc 0 ZeroDivisionError_cls [PStr ''division by zero'']),
       st0\<lparr>next_id := Suc 0, cause_of := (cause_of st0)(0 := None)\<rparr>)
   \<and> is_exc_instance (PExc 0 ZeroDivisionError_cls [PStr ''division by zero''])
   \<and> fst (err_log_and_return (PDict []) None False (Some (Logger ''app'')) 40 divide_fn
            [PInt 1, PInt 0] [] st0) = Return (PDict [])
   \<and> length (log_calls (snd (err_log_and_return (PDict []) None False (Some (Logger ''app'')) 40
            divide_fn [PInt 1, PInt 0] [] st0))) = 1"
proof -
  have b: "body divide_fn [PInt 1, PInt 0] [] st0 =
      (Raise (PExc 0 ZeroDivisionError_cls [PStr ''division by zero'']),
       st0\<lparr>next_id := Suc 0, cause_of := (cause_of st0)(0 := None)\<rparr>)"
    using body_divide [of "[PInt 1, PInt 0]" "[]" st0] by (simp add: st0_def)
  have i: "is_exc_instance (PExc 0 ZeroDivisionError_cls [PStr ''division by zero''])"
    by (rule ZeroDivisionError_instance)
  show ?thesis
    using err_log_and_return_returns_fallback [OF b i] b i by (simp add: st0_def)
qed

subsection \<open>Exceptions outside the \<^verbatim>\<open>Exception\<close> hierarchy\<close>

text \<open>
  Claim C10: what the wrapped function raises and is not an instance of \<^verbatim>\<open>Exception\<close>
  (\<^verbatim>\<open>SystemExit\<close>, \<^verbatim>\<open>KeyboardInterrupt\<close>) leaves \<^verbatim>\<open>err_interceptor\<close> and
  \<^verbatim>\<open>err_log_and_return\<close> as it is, in the state the wrapped function left: no log call,
  no substitution, no fallback value.
\<close>

theorem non_Exception_propagates:
  assumes "body func args kwargs st = (Raise e, st')" and "\<not> is_exc_instance e"
  shows "err_interceptor er a ata log_obj fe lvl func args kwargs st = (Raise e, st')
       \<and> err_log_and_return out a ata log_obj lvl func args kwargs st = (Raise e, st')"
  using assms
  by (simp add: err_interceptor_def err_log_and_return_def)

theorem non_Exception_propagates_witness:
  "body quit [] [] st0 =
      (Raise (PExc 0 SystemExit_cls [PInt 1]),
       st0\<lparr>next_id := Suc 0, cause_of := (cause_of st0)(0 := None)\<rparr>)
   \<and> \<not> is_exc_instance (PExc 0 SystemExit_cls [PInt 1])
   \<and> err_interceptor (PType (TExc ComputeError_cls)) None False (Some (Logger ''app'')) True 40
        quit [] [] st0 =
      (Raise (PExc 0 SystemExit_cls [PInt 1]),
       st0\<lparr>next_id := Suc 0, cause_of := (cause_of st0)(0 := None)\<rparr>)
   \<and> err_log_and_return PNone None False (Some (Logger ''app'')) 40 quit [] [] st0 =
      (Raise (PExc 0 SystemExit_cls [PInt 1]),
       st0\<lparr>next_id := Suc 0, cause_of := (cause_of st0)(0 := None)\<rparr>)"
proof -
  have b: "body quit [] [] st0 =
      (Raise (PExc 0 SystemExit_cls [PInt 1]),
       st0\<lparr>next_id := Suc 0, cause_of := (cause_of st0)(0 := None)\<rparr>)"
    using body_quit [of "[]" "[]" st0] by (simp add: st0_def)
  have i: "\<not> is_exc_instance (PExc 0 SystemExit_cls [PInt 1])"
    by (rule SystemExit_not_instance)
  show ?thesis
    using non_Exception_propagates [OF b i] b i by simp
qed

end
